theory Spec2Isabelle
  imports
    Complex_Main
    "HOL-Library.Char_ord"
    "HOL-Library.List_Lexorder"
    "HOL-Library.Multiset"
begin

section \<open>Python values used by the backend\<close>

text \<open>
  Strings are sequences of code points below 256; \<open>str\<close> comparison is lexicographic on
  code points, which is the order that \<open>Char_ord\<close> and \<open>List_Lexorder\<close> give to
  \<^typ>\<open>string\<close>. Numbers carry their exact value: a Python \<open>int\<close> or a finite
  \<open>float\<close> is the real number it denotes.
\<close>

datatype json =
    JNull
  | JBool bool
  | JNum real
  | JStr string
  | JArr "json list"
  | JObj "(string \<times> json) list"

type_synonym pydict = "(string \<times> json) list"

datatype error =
    SecurityException string
  | KeyError string
  | TypeError
  | ValueError
  | AttributeError
  | ResponseError string
  | HTTPException nat string

definition dict_get :: "pydict \<Rightarrow> string \<Rightarrow> json \<Rightarrow> json" where
  \<comment> \<open>\<open>d.get(k, default)\<close>\<close>
  "dict_get d k dflt = (case map_of d k of None \<Rightarrow> dflt | Some v \<Rightarrow> v)"

definition dict_pop :: "pydict \<Rightarrow> string \<Rightarrow> json \<Rightarrow> json \<times> pydict" where
  \<comment> \<open>\<open>d.pop(k, default)\<close>: the value and the dictionary without the key\<close>
  "dict_pop d k dflt = (dict_get d k dflt, filter (\<lambda>kv. fst kv \<noteq> k) d)"

fun truthy :: "json \<Rightarrow> bool" where
  "truthy JNull = False"
| "truthy (JBool b) = b"
| "truthy (JNum x) = (x \<noteq> 0)"
| "truthy (JStr s) = (s \<noteq> [])"
| "truthy (JArr xs) = (xs \<noteq> [])"
| "truthy (JObj kvs) = (kvs \<noteq> [])"

fun py_lt_number :: "json \<Rightarrow> real \<Rightarrow> error + bool" where
  \<comment> \<open>\<open>v < c\<close> for a float constant \<open>c\<close>: numbers and booleans compare, anything else
      raises \<open>TypeError\<close>\<close>
  "py_lt_number (JNum x) c = Inr (x < c)"
| "py_lt_number (JBool b) c = Inr ((if b then 1 else 0) < c)"
| "py_lt_number _ c = Inl TypeError"

definition lower_char :: "char \<Rightarrow> char" where
  "lower_char c =
     (let n = (of_char c :: nat)
      in if (65 \<le> n \<and> n \<le> 90) \<or> (192 \<le> n \<and> n \<le> 222 \<and> n \<noteq> 215)
         then char_of (n + 32) else c)"

definition lower :: "string \<Rightarrow> string" where
  \<comment> \<open>\<open>str.lower()\<close>\<close>
  "lower s = map lower_char s"

fun startswith :: "string \<Rightarrow> string \<Rightarrow> bool" where
  "startswith s [] = True"
| "startswith [] (k # ks) = False"
| "startswith (c # cs) (k # ks) = (c = k \<and> startswith cs ks)"

fun str_contains :: "string \<Rightarrow> string \<Rightarrow> bool" where
  \<comment> \<open>\<open>kw in s\<close>, written \<open>str_contains s kw\<close>\<close>
  "str_contains [] kw = (kw = [])"
| "str_contains (c # cs) kw = (startswith (c # cs) kw \<or> str_contains cs kw)"

fun join :: "string \<Rightarrow> string list \<Rightarrow> string" where
  \<comment> \<open>\<open>sep.join(xs)\<close>\<close>
  "join sep [] = []"
| "join sep [x] = x"
| "join sep (x # y # ys) = x @ sep @ join sep (y # ys)"

fun rfind :: "string \<Rightarrow> char \<Rightarrow> int" where
  \<comment> \<open>\<open>s.rfind(c)\<close>: the highest index of \<open>c\<close>, or \<open>-1\<close>\<close>
  "rfind [] c = -1"
| "rfind (x # xs) c =
     (let r = rfind xs c in if r \<noteq> -1 then r + 1 else if x = c then 0 else -1)"

definition digit_char :: "nat \<Rightarrow> char" where
  "digit_char d = char_of (48 + d)"

function str_nat :: "nat \<Rightarrow> string" where
  "str_nat n = (if n < 10 then [digit_char n] else str_nat (n div 10) @ [digit_char (n mod 10)])"
  by pat_completeness auto
termination
  by (relation "measure id") auto

declare str_nat.simps [simp del]

definition str_int :: "int \<Rightarrow> string" where
  \<comment> \<open>the decimal text an f-string gives an \<open>int\<close>\<close>
  "str_int i = (if i < 0 then CHR ''-'' # str_nat (nat (- i)) else str_nat (nat i))"

definition int_of_float :: "real \<Rightarrow> int" where
  \<comment> \<open>\<open>int(x)\<close> on a float: truncation towards zero\<close>
  "int_of_float x = (if 0 \<le> x then \<lfloor>x\<rfloor> else \<lceil>x\<rceil>)"

definition py_index :: "nat \<Rightarrow> int \<Rightarrow> nat" where
  \<comment> \<open>a slice bound on a sequence of length \<open>n\<close>: negative bounds count from the end,
      and every bound is clipped to \<open>0..n\<close>\<close>
  "py_index n i = (if i < 0 then nat (max (i + int n) 0) else min (nat i) n)"

definition py_slice :: "'a list \<Rightarrow> int \<Rightarrow> int \<Rightarrow> 'a list" where
  \<comment> \<open>\<open>xs[a:b]\<close>\<close>
  "py_slice xs a b =
     (let lo = py_index (length xs) a; hi = py_index (length xs) b
      in take (hi - lo) (drop lo xs))"

function range_from :: "int \<Rightarrow> int \<Rightarrow> int \<Rightarrow> int list" where
  "range_from i stop step =
     (if 0 < step \<and> i < stop then i # range_from (i + step) stop step else [])"
  by pat_completeness auto
termination
  by (relation "measure (\<lambda>(i, stop, step). nat (stop - i))") auto

declare range_from.simps [simp del]

definition py_range :: "int \<Rightarrow> int \<Rightarrow> error + int list" where
  \<comment> \<open>\<open>range(0, stop, step)\<close> for \<open>0 \<le> stop\<close>: a zero step raises \<open>ValueError\<close>, a
      negative step gives the empty range\<close>
  "py_range stop step = (if step = 0 then Inl ValueError else Inr (range_from 0 stop step))"

section \<open>config.py\<close>

record Settings =
  chunk_size :: int
  chunk_overlap :: int
  top_k_chunks :: int
  similarity_threshold :: real
  queries_per_minute :: int
  queries_per_hour :: int
  cache_ttl_seconds :: int

definition settings :: Settings where
  \<comment> \<open>the defaults of the class \<open>Settings\<close>\<close>
  "settings = \<lparr> chunk_size = 500, chunk_overlap = 50, top_k_chunks = 5,
      similarity_threshold = 7 / 10, queries_per_minute = 10, queries_per_hour = 100,
      cache_ttl_seconds = 3600 \<rparr>"

section \<open>cache\_service.py: key derivation\<close>

definition cache_key_content :: "string \<Rightarrow> string \<Rightarrow> string list \<Rightarrow> string" where
  \<comment> \<open>the local \<open>content\<close> of \<open>_generate_cache_key\<close>\<close>
  "cache_key_content tenant_id question chunk_ids =
     tenant_id @ '':'' @ question @ '':'' @ join '':'' (sort chunk_ids)"

definition generate_cache_key ::
  "(string \<Rightarrow> string) \<Rightarrow> string \<Rightarrow> string \<Rightarrow> string list \<Rightarrow> string" where
  \<comment> \<open>\<open>sha256\<close> stands for \<open>hashlib.sha256(s.encode()).hexdigest()\<close>, a parameter
      of the model\<close>
  "generate_cache_key sha256 tenant_id question chunk_ids =
     ''cache:llm:'' @ sha256 (cache_key_content tenant_id question chunk_ids)"

section \<open>The key/value store behind the cache and the rate limiter\<close>

text \<open>
  Redis is an external collaborator. A key holds a JSON document (the text that
  \<open>json.dumps\<close> wrote and \<open>json.loads\<close> reads back unchanged; a counter is the
  number it shows) and an optional expiry time. A key whose expiry time has been reached
  is absent for every command. Each command is given the store's clock.
\<close>

record redis_entry =
  stored :: json
  expires_at :: "real option"

type_synonym redis = "string \<Rightarrow> redis_entry option"

definition live :: "real \<Rightarrow> redis_entry \<Rightarrow> bool" where
  "live now e = (case expires_at e of None \<Rightarrow> True | Some t \<Rightarrow> now < t)"

definition redis_get :: "redis \<Rightarrow> real \<Rightarrow> string \<Rightarrow> json option" where
  "redis_get R now k =
     (case R k of None \<Rightarrow> None | Some e \<Rightarrow> if live now e then Some (stored e) else None)"

definition redis_setex :: "redis \<Rightarrow> real \<Rightarrow> string \<Rightarrow> int \<Rightarrow> json \<Rightarrow> error + redis" where
  \<comment> \<open>\<open>SETEX\<close> refuses an expire time that is not positive\<close>
  "redis_setex R now k ttl v =
     (if ttl \<le> 0 then Inl (ResponseError ''invalid expire time in setex'')
      else Inr (R(k \<mapsto> \<lparr> stored = v, expires_at = Some (now + real_of_int ttl) \<rparr>)))"

definition redis_incr :: "redis \<Rightarrow> real \<Rightarrow> string \<Rightarrow> error + (redis \<times> int)" where
  \<comment> \<open>\<open>INCR\<close>: a missing key counts from 0 and gets no expiry; the expiry of a present
      key is kept; a value that is not an integer is refused\<close>
  "redis_incr R now k =
     (case R k of
        None \<Rightarrow> Inr (R(k \<mapsto> \<lparr> stored = JNum 1, expires_at = None \<rparr>), 1)
      | Some e \<Rightarrow>
          if \<not> live now e then Inr (R(k \<mapsto> \<lparr> stored = JNum 1, expires_at = None \<rparr>), 1)
          else (case stored e of
                  JNum x \<Rightarrow>
                    if x = real_of_int \<lfloor>x\<rfloor>
                    then Inr (R(k \<mapsto> e\<lparr> stored := JNum (x + 1) \<rparr>), \<lfloor>x\<rfloor> + 1)
                    else Inl (ResponseError ''value is not an integer or out of range'')
                | _ \<Rightarrow> Inl (ResponseError ''value is not an integer or out of range'')))"

definition redis_expire :: "redis \<Rightarrow> real \<Rightarrow> string \<Rightarrow> int \<Rightarrow> redis" where
  \<comment> \<open>\<open>EXPIRE\<close>: sets the expiry of a present key; a time that is not positive deletes it\<close>
  "redis_expire R now k secs =
     (case R k of
        None \<Rightarrow> R
      | Some e \<Rightarrow>
          if \<not> live now e then R
          else if secs \<le> 0 then R(k := None)
          else R(k \<mapsto> e\<lparr> expires_at := Some (now + real_of_int secs) \<rparr>))"

section \<open>cache\_service.py: cache and rate limiter\<close>

definition get_cached_response ::
  "(string \<Rightarrow> string) \<Rightarrow> redis \<Rightarrow> real \<Rightarrow> string \<Rightarrow> string \<Rightarrow> string list \<Rightarrow> json option" where
  \<comment> \<open>the text of a JSON document is never empty, so \<open>if cached\<close> holds for every
      stored value\<close>
  "get_cached_response sha256 R now tenant_id question chunk_ids =
     (let key = generate_cache_key sha256 tenant_id question chunk_ids
      in case redis_get R now key of None \<Rightarrow> None | Some cached \<Rightarrow> Some cached)"

definition conf_threshold :: real where
  \<comment> \<open>the double that the literal \<open>0.7\<close> denotes\<close>
  "conf_threshold = 3152519739159347 / 4503599627370496"

definition time_keywords :: "string list" where
  "time_keywords = [''today'', ''now'', ''current'', ''latest'', ''deadline'']"

definition personal_keywords :: "string list" where
  "personal_keywords = [''my'', ''i '', ''me '', ''mine'']"

definition ttl_or_default :: "Settings \<Rightarrow> int option \<Rightarrow> int" where
  \<comment> \<open>\<open>ttl or settings.cache_ttl_seconds\<close>: \<open>None\<close> and \<open>0\<close> give the default\<close>
  "ttl_or_default S ttl =
     (case ttl of
        None \<Rightarrow> cache_ttl_seconds S
      | Some t \<Rightarrow> if t = 0 then cache_ttl_seconds S else t)"

definition cache_response ::
  "Settings \<Rightarrow> (string \<Rightarrow> string) \<Rightarrow> redis \<Rightarrow> real \<Rightarrow> string \<Rightarrow> string \<Rightarrow> string list \<Rightarrow>
   pydict \<Rightarrow> int option \<Rightarrow> error + redis" where
  "cache_response S sha256 R now tenant_id question chunk_ids response ttl =
     (case py_lt_number (dict_get response ''confidence'' (JNum 0)) conf_threshold of
        Inl e \<Rightarrow> Inl e
      | Inr True \<Rightarrow> Inr R
      | Inr False \<Rightarrow>
          if truthy (dict_get response ''insufficient_context'' JNull) then Inr R
          else
            let question_lower = lower question
            in if list_ex (\<lambda>kw. str_contains question_lower kw)
                    (time_keywords @ personal_keywords)
               then Inr R
               else
                 let key = generate_cache_key sha256 tenant_id question chunk_ids;
                     ttl' = ttl_or_default S ttl
                 in redis_setex R now key ttl' (JObj response))"

definition rate_limit_key :: "string \<Rightarrow> string \<Rightarrow> real \<Rightarrow> string" where
  "rate_limit_key tenant_id operation now =
     (let current_minute = int_of_float (now / 60)
      in ''ratelimit:'' @ tenant_id @ '':'' @ operation @ '':'' @ str_int current_minute)"

definition check_rate_limit ::
  "Settings \<Rightarrow> redis \<Rightarrow> real \<Rightarrow> string \<Rightarrow> string \<Rightarrow> error + (redis \<times> bool)" where
  "check_rate_limit S R now tenant_id operation =
     (let key = rate_limit_key tenant_id operation now
      in case redis_incr R now key of
           Inl e \<Rightarrow> Inl e
         | Inr (R1, cnt) \<Rightarrow>
             let R2 = (if cnt = 1 then redis_expire R1 now key 60 else R1);
                 limit = queries_per_minute S
             in if cnt > limit then Inr (R2, False) else Inr (R2, True))"


section \<open>vector\_store.py\<close>

record scored_point =
  payload :: pydict
  score :: real

text \<open>
  The Qdrant client is an external collaborator: the names of its collections and what a
  filtered search of a collection returns are parameters. Every call made to it is
  recorded.
\<close>

record qdrant =
  collections :: "string list"
  search_points :: "string \<Rightarrow> real list \<Rightarrow> int \<Rightarrow> real \<Rightarrow> string \<Rightarrow> scored_point list"

datatype qdrant_call =
    Get_collections
  | Search_call string "real list" int real string

definition get_collection_name :: "string \<Rightarrow> string" where
  "get_collection_name tenant_id =
     (let clean_id = take 16 (filter (\<lambda>c. c \<noteq> CHR ''-'') tenant_id)
      in ''tenant_'' @ clean_id @ ''_documents'')"

definition dict_item :: "pydict \<Rightarrow> string \<Rightarrow> error + json" where
  \<comment> \<open>\<open>d[k]\<close>\<close>
  "dict_item d k = (case map_of d k of None \<Rightarrow> Inl (KeyError k) | Some v \<Rightarrow> Inr v)"

definition chunk_of_point :: "scored_point \<Rightarrow> error + pydict" where
  \<comment> \<open>the dictionary appended for one result\<close>
  "chunk_of_point r =
     (case dict_item (payload r) ''document_id'' of
        Inl e \<Rightarrow> Inl e
      | Inr did \<Rightarrow>
         (case dict_item (payload r) ''document_name'' of
            Inl e \<Rightarrow> Inl e
          | Inr dname \<Rightarrow>
             (case dict_item (payload r) ''chunk_text'' of
                Inl e \<Rightarrow> Inl e
              | Inr ctext \<Rightarrow>
                 (case dict_item (payload r) ''chunk_index'' of
                    Inl e \<Rightarrow> Inl e
                  | Inr cindex \<Rightarrow>
                      Inr [(''document_id'', did), (''document_name'', dname),
                           (''chunk_text'', ctext), (''chunk_index'', cindex),
                           (''score'', JNum (score r))]))))"

fun validate_results :: "string \<Rightarrow> pydict list \<Rightarrow> scored_point list \<Rightarrow> error + pydict list" where
  \<comment> \<open>the loop over \<open>results\<close>, with the list \<open>chunks\<close> built so far\<close>
  "validate_results tenant_id chunks [] = Inr chunks"
| "validate_results tenant_id chunks (r # rs) =
     (if dict_get (payload r) ''tenant_id'' JNull \<noteq> JStr tenant_id
      then Inl (SecurityException ''Tenant isolation violation detected'')
      else case chunk_of_point r of
             Inl e \<Rightarrow> Inl e
           | Inr c \<Rightarrow> validate_results tenant_id (chunks @ [c]) rs)"

definition search ::
  "qdrant \<Rightarrow> string \<Rightarrow> real list \<Rightarrow> int \<Rightarrow> real \<Rightarrow> qdrant_call list \<times> (error + pydict list)" where
  "search Q tenant_id query_vector top_k score_threshold =
     (let collection_name = get_collection_name tenant_id;
          collection_names = collections Q
      in if collection_name \<notin> set collection_names then ([Get_collections], Inr [])
         else
           let results = search_points Q collection_name query_vector top_k score_threshold
                           tenant_id
           in ([Get_collections,
                Search_call collection_name query_vector top_k score_threshold tenant_id],
               validate_results tenant_id [] results))"

section \<open>llm\_service.py: the chunker\<close>

text \<open>
  The tokenizer is an external collaborator; \<open>encode\<close> and \<open>decode\<close> are parameters.
\<close>

record tokenizer =
  encode :: "string \<Rightarrow> nat list"
  decode :: "nat list \<Rightarrow> string"

function bit_length :: "nat \<Rightarrow> nat" where
  "bit_length n = (if n = 0 then 0 else Suc (bit_length (n div 2)))"
  by pat_completeness auto
termination
  by (relation "measure id") auto

declare bit_length.simps [simp del]

definition round53 :: "nat \<Rightarrow> nat" where
  \<comment> \<open>the natural number with at most 53 significant bits nearest to \<open>n\<close>, ties to the
      even one: how a double rounds\<close>
  "round53 n =
     (let b = bit_length n
      in if b \<le> 53 then n
         else
           let s = b - 53; q = n div 2 ^ s; r = n mod 2 ^ s; h = 2 ^ (s - 1)
           in (if h < r \<or> (r = h \<and> odd q) then q + 1 else q) * 2 ^ s)"

definition times_0_7 :: "int \<Rightarrow> real" where
  \<comment> \<open>the double \<open>n * 0.7\<close>: \<open>n\<close> converted to a double, multiplied by the double that
      \<open>0.7\<close> denotes (\<open>3152519739159347 / 2 ^ 52\<close>), and rounded\<close>
  "times_0_7 n =
     (let a = round53 (nat \<bar>n\<bar>);
          m = real (round53 (a * 3152519739159347)) / 2 ^ 52
      in if n < 0 then - m else m)"

definition trim_to_sentence :: "Settings \<Rightarrow> string \<Rightarrow> string" where
  \<comment> \<open>lines 34 to 36: the text cut after its last period, when that period lies beyond
      \<open>chunk_size * 0.7\<close>\<close>
  "trim_to_sentence S chunk_text =
     (let last_period = rfind chunk_text (CHR ''.'')
      in if real_of_int last_period > times_0_7 (chunk_size S)
         then take (nat (last_period + 1)) chunk_text
         else chunk_text)"

definition chunk_at :: "Settings \<Rightarrow> tokenizer \<Rightarrow> nat list \<Rightarrow> pydict list \<Rightarrow> int \<Rightarrow> pydict list" where
  \<comment> \<open>one turn of the loop at offset \<open>i\<close>, with the list \<open>chunks\<close> built so far\<close>
  "chunk_at S tk tokens chunks i =
     (let chunk_tokens = py_slice tokens i (i + chunk_size S);
          chunk_text = decode tk chunk_tokens;
          chunk_text' = (if i + chunk_size S < int (length tokens)
                         then trim_to_sentence S chunk_text else chunk_text)
      in chunks @ [[(''text'', JStr chunk_text'),
                    (''index'', JNum (real (length chunks))),
                    (''token_count'', JNum (real (length chunk_tokens)))]])"

definition chunk_text :: "Settings \<Rightarrow> tokenizer \<Rightarrow> string \<Rightarrow> error + pydict list" where
  "chunk_text S tk txt =
     (let tokens = encode tk txt;
          chunk_size = chunk_size S;
          overlap = chunk_overlap S
      in case py_range (int (length tokens)) (chunk_size - overlap) of
           Inl e \<Rightarrow> Inl e
         | Inr offsets \<Rightarrow> Inr (foldl (chunk_at S tk tokens) [] offsets))"

definition char_tokenizer :: tokenizer where
  \<comment> \<open>a tokenizer with one token for each character, to run the chunker on concrete texts\<close>
  "char_tokenizer = \<lparr> encode = map of_char, decode = map char_of \<rparr>"

section \<open>main.py: the query endpoint\<close>

text \<open>
  The embedding call and \<open>LLMService.generate_answer\<close> are opaque functions that may
  fail. Every call to a collaborator that is not the key/value store is recorded, in
  order. The clock readings of one request are given. \<open>QueryResponse\<close> holds the values
  its constructor is given.
\<close>

record externals =
  sha256_hexdigest :: "string \<Rightarrow> string"
  embed_text :: "string \<Rightarrow> error + real list"
  generate_answer :: "string \<Rightarrow> pydict list \<Rightarrow> string \<Rightarrow> error + pydict"
  vector_client :: qdrant

record clock =
  start_time :: real
  rate_time :: real
  get_time :: real
  put_time :: real
  end_time :: real

datatype call =
    Embed_text string
  | Vector_store "qdrant_call list"
  | Generate_answer string "pydict list" string
  | Create_query_log string string pydict nat json
  | Create_audit_log string string

record QueryResponse =
  answer :: json
  sources :: json
  confidence :: json
  insufficient_context :: json
  processing_time_ms :: int
  cached :: bool

type_synonym outcome = "redis \<times> call list \<times> (error + QueryResponse)"

fun document_ids :: "pydict list \<Rightarrow> error + json list" where
  \<comment> \<open>\<open>[c['document_id'] for c in chunks]\<close>\<close>
  "document_ids [] = Inr []"
| "document_ids (c # cs) =
     (case dict_item c ''document_id'' of
        Inl e \<Rightarrow> Inl e
      | Inr v \<Rightarrow> (case document_ids cs of Inl e \<Rightarrow> Inl e | Inr vs \<Rightarrow> Inr (v # vs)))"

fun as_strings :: "json list \<Rightarrow> error + string list" where
  \<comment> \<open>the identifiers as \<open>List[str]\<close>: \<open>sorted\<close> and \<open>join\<close> of the key derivation raise
      \<open>TypeError\<close> on a list with an item that is not a \<open>str\<close>\<close>
  "as_strings [] = Inr []"
| "as_strings (JStr s # js) =
     (case as_strings js of Inl e \<Rightarrow> Inl e | Inr ss \<Rightarrow> Inr (s # ss))"
| "as_strings (j # js) = Inl TypeError"

definition no_context_result :: pydict where
  "no_context_result =
     [(''answer'', JNull), (''sources'', JArr []), (''confidence'', JNum 0),
      (''insufficient_context'', JBool True)]"

definition make_response :: "clock \<Rightarrow> pydict \<Rightarrow> bool \<Rightarrow> QueryResponse" where
  "make_response ck result is_cached =
     \<lparr> answer = dict_get result ''answer'' JNull,
       sources = dict_get result ''sources'' (JArr []),
       confidence = dict_get result ''confidence'' JNull,
       insufficient_context = dict_get result ''insufficient_context'' (JBool False),
       processing_time_ms = int_of_float ((end_time ck - start_time ck) * 1000),
       cached = is_cached \<rparr>"

definition answer_query ::
  "Settings \<Rightarrow> externals \<Rightarrow> redis \<Rightarrow> clock \<Rightarrow> string \<Rightarrow> string \<Rightarrow> string \<Rightarrow> call list \<Rightarrow>
   pydict list \<Rightarrow> string list \<Rightarrow> outcome" where
  \<comment> \<open>lines 254 to 316: after a cache miss\<close>
  "answer_query S X R ck tenant_id tenant_name question trace chunks chunk_ids =
     (let (trace1, generated) =
            (if chunks = [] then (trace, Inr no_context_result)
             else (trace @ [Generate_answer question chunks tenant_name],
                   generate_answer X question chunks tenant_name))
      in case generated of
           Inl e \<Rightarrow> (R, trace1, Inl e)
         | Inr result0 \<Rightarrow>
             let (tokens, result) = dict_pop result0 ''_tokens'' (JObj [])
             in (case cache_response S (sha256_hexdigest X) R (put_time ck) tenant_id question
                        chunk_ids result None of
                   Inl e \<Rightarrow> (R, trace1, Inl e)
                 | Inr R2 \<Rightarrow>
                     (case tokens of
                        JObj t \<Rightarrow>
                          (R2,
                           trace1 @ [Create_query_log tenant_id question result (length chunks)
                                      (dict_get t ''total'' (JNum 0)),
                                    Create_audit_log tenant_id ''query_execute''],
                           Inr (make_response ck result False))
                      | _ \<Rightarrow> (R2, trace1, Inl AttributeError))))"

definition check_cache ::
  "Settings \<Rightarrow> externals \<Rightarrow> redis \<Rightarrow> clock \<Rightarrow> string \<Rightarrow> string \<Rightarrow> string \<Rightarrow> call list \<Rightarrow>
   pydict list \<Rightarrow> outcome" where
  \<comment> \<open>lines 235 to 252, then the rest of the function\<close>
  "check_cache S X R ck tenant_id tenant_name question trace chunks =
     (case document_ids chunks of
        Inl e \<Rightarrow> (R, trace, Inl e)
      | Inr ids \<Rightarrow>
         (case as_strings ids of
            Inl e \<Rightarrow> (R, trace, Inl e)
          | Inr chunk_ids \<Rightarrow>
             (case get_cached_response (sha256_hexdigest X) R (get_time ck) tenant_id question
                     chunk_ids of
                None \<Rightarrow>
                  answer_query S X R ck tenant_id tenant_name question trace chunks chunk_ids
              | Some cached_response \<Rightarrow>
                  if truthy cached_response
                  then (case cached_response of
                          JObj d \<Rightarrow> (R, trace, Inr (make_response ck d True))
                        | _ \<Rightarrow> (R, trace, Inl AttributeError))
                  else answer_query S X R ck tenant_id tenant_name question trace chunks
                         chunk_ids)))"

definition query_knowledge_base ::
  "Settings \<Rightarrow> externals \<Rightarrow> redis \<Rightarrow> clock \<Rightarrow> string \<Rightarrow> string \<Rightarrow> string \<Rightarrow> outcome" where
  "query_knowledge_base S X R ck tenant_id tenant_name question =
     (case check_rate_limit S R (rate_time ck) tenant_id ''query'' of
        Inl e \<Rightarrow> (R, [], Inl e)
      | Inr (R1, allowed) \<Rightarrow>
          if \<not> allowed
          then (R1, [],
                Inl (HTTPException 429
                      (''Rate limit exceeded: '' @ str_int (queries_per_minute S)
                         @ '' queries per minute'')))
          else
            (case embed_text X question of
               Inl e \<Rightarrow> (R1, [Embed_text question], Inl e)
             | Inr question_embedding \<Rightarrow>
                 (case search (vector_client X) tenant_id question_embedding (top_k_chunks S)
                         (similarity_threshold S) of
                    (asked, Inl e) \<Rightarrow>
                      (case e of
                         SecurityException msg \<Rightarrow>
                           (R1,
                            [Embed_text question, Vector_store asked,
                             Create_audit_log tenant_id ''security_violation''],
                            Inl (HTTPException 500 ''Security violation detected''))
                       | _ \<Rightarrow> (R1, [Embed_text question, Vector_store asked], Inl e))
                  | (asked, Inr chunks) \<Rightarrow>
                      check_cache S X R1 ck tenant_id tenant_name question
                        [Embed_text question, Vector_store asked] chunks)))"

definition synthesis_calls :: "call list \<Rightarrow> call list" where
  "synthesis_calls cs = filter (\<lambda>c. case c of Generate_answer q ctx n \<Rightarrow> True | _ \<Rightarrow> False) cs"

section \<open>Predicates and sample data for the properties\<close>

definition complete_payload :: "scored_point \<Rightarrow> bool" where
  \<comment> \<open>the payload has the four fields that \<open>search\<close> reads with \<open>payload[...]\<close>\<close>
  "complete_payload r =
     list_all (\<lambda>k. map_of (payload r) k \<noteq> None)
       [''document_id'', ''document_name'', ''chunk_text'', ''chunk_index'']"

definition same_tenant :: "string \<Rightarrow> scored_point \<Rightarrow> bool" where
  \<comment> \<open>the negation of the check \<open>result.payload.get('tenant_id') != tenant_id\<close>\<close>
  "same_tenant tenant_id r = (dict_get (payload r) ''tenant_id'' JNull = JStr tenant_id)"

definition point_of :: "string \<Rightarrow> string \<Rightarrow> scored_point" where
  \<comment> \<open>a record as \<open>store_chunks\<close> writes it\<close>
  "point_of tenant_id doc =
     \<lparr> payload = [(''tenant_id'', JStr tenant_id), (''document_id'', JStr doc),
                   (''document_name'', JStr ''handbook.md''), (''chunk_text'', JStr ''text''),
                   (''chunk_index'', JNum 0), (''total_chunks'', JNum 1),
                   (''token_count'', JNum 1)],
       score = 9 / 10 \<rparr>"

definition leaky_index :: qdrant where
  "leaky_index = \<lparr> collections = [''tenant_t1_documents''],
      search_points = (\<lambda>c v k th t. [point_of ''t1'' ''d1'', point_of ''t2'' ''d2'']) \<rparr>"

definition sound_index :: qdrant where
  "sound_index = \<lparr> collections = [''tenant_t1_documents''],
      search_points = (\<lambda>c v k th t. [point_of ''t1'' ''d1'', point_of ''t1'' ''d2'']) \<rparr>"

definition answer_with :: "real \<Rightarrow> pydict" where
  \<comment> \<open>a synthesized answer with the given confidence\<close>
  "answer_with c = [(''answer'', JStr ''Twenty days.''),
     (''sources'', JArr [JObj [(''document_name'', JStr ''handbook.md''),
                               (''relevant_excerpt'', JStr ''twenty days'')]]),
     (''confidence'', JNum c), (''insufficient_context'', JBool False)]"

definition sample_externals :: externals where
  \<comment> \<open>collaborators for a concrete run: an index without the collection of tenant \<open>t9\<close>\<close>
  "sample_externals = \<lparr> sha256_hexdigest = rev, embed_text = (\<lambda>q. Inr [1, 0]),
      generate_answer = (\<lambda>q ctx n. Inr (answer_with (9 / 10))), vector_client = leaky_index \<rparr>"

definition sample_clock :: clock where
  "sample_clock = \<lparr> start_time = 1000, rate_time = 1000, get_time = 1001, put_time = 1002,
      end_time = 1003 \<rparr>"

definition partial_point :: "string \<Rightarrow> scored_point" where
  \<comment> \<open>a record whose payload has no \<open>document_id\<close>\<close>
  "partial_point tenant_id =
     \<lparr> payload = [(''tenant_id'', JStr tenant_id), (''document_name'', JStr ''handbook.md''),
                   (''chunk_text'', JStr ''text''), (''chunk_index'', JNum 0)],
       score = 9 / 10 \<rparr>"

definition broken_index :: qdrant where
  "broken_index = \<lparr> collections = [''tenant_t1_documents''],
      search_points = (\<lambda>c v k th t. [partial_point ''t1'', point_of ''t2'' ''d2'']) \<rparr>"

definition long_words :: string where
  \<comment> \<open>80 words, a period at index 399, and 1000 more words: 5400 characters\<close>
  "long_words =
     ''word'' @ concat (replicate 79 '' word'') @ ''.'' @ concat (replicate 1000 '' word'')"

function blocks :: "nat \<Rightarrow> 'a list \<Rightarrow> 'a list list" where
  "blocks m xs = (if m = 0 \<or> xs = [] then [] else take m xs # blocks m (drop m xs))"
  by pat_completeness auto
termination
  by (relation "measure (\<lambda>(m, xs). length xs)") auto

declare blocks.simps [simp del]

fun string_code :: "string \<Rightarrow> nat" where
  "string_code [] = 0"
| "string_code (c # cs) = 1 + of_char c + 257 * string_code cs"

function code_string :: "nat \<Rightarrow> string" where
  "code_string n =
     (if n = 0 then [] else char_of ((n - 1) mod 257) # code_string ((n - 1) div 257))"
  by pat_completeness auto
termination
  by (relation "measure id") auto

declare code_string.simps [simp del]

definition block_tokenizer :: tokenizer where
  \<comment> \<open>a tokenizer with one token for every five characters, to run the chunker on a text
      whose tokens are longer than one character\<close>
  "block_tokenizer = \<lparr> encode = (\<lambda>s. map string_code (blocks 5 s)),
                        decode = (\<lambda>ts. concat (map code_string ts)) \<rparr>"

section \<open>Properties\<close>

subsection \<open>Retrieval\<close>

lemma chunk_of_point_Inr_iff: "(\<exists>c. chunk_of_point r = Inr c) \<longleftrightarrow> complete_payload r"
  by (auto simp: complete_payload_def chunk_of_point_def dict_item_def split: option.splits)

lemma chunk_of_point_Inl: "chunk_of_point r = Inl e \<Longrightarrow> \<exists>k. e = KeyError k"
  by (auto simp: chunk_of_point_def dict_item_def split: option.splits)

lemma validate_results_returns_iff:
  "(\<exists>out. validate_results t acc rs = Inr out) \<longleftrightarrow>
     list_all (\<lambda>r. same_tenant t r \<and> complete_payload r) rs"
proof (induction rs arbitrary: acc)
  case Nil
  then show ?case by simp
next
  case (Cons r rs)
  show ?case
  proof (cases "chunk_of_point r")
    case (Inl e)
    then have "\<not> complete_payload r" using chunk_of_point_Inr_iff [of r] by auto
    with Inl show ?thesis by (simp add: same_tenant_def)
  next
    case (Inr c)
    then have "complete_payload r" using chunk_of_point_Inr_iff [of r] by auto
    with Inr Cons.IH [of "acc @ [c]"] show ?thesis by (simp add: same_tenant_def)
  qed
qed

lemma validate_results_security_iff:
  "validate_results t acc rs = Inl (SecurityException ''Tenant isolation violation detected'') \<longleftrightarrow>
     (\<exists>i<length rs. \<not> same_tenant t (rs ! i) \<and>
        (\<forall>j<i. same_tenant t (rs ! j) \<and> complete_payload (rs ! j)))"
proof (induction rs arbitrary: acc)
  case Nil
  then show ?case by simp
next
  case (Cons r rs)
  show ?case
  proof (cases "same_tenant t r")
    case False
    then show ?thesis by (auto simp: same_tenant_def)
  next
    case True
    show ?thesis
    proof (cases "chunk_of_point r")
      case (Inl e)
      then have "\<not> complete_payload r" using chunk_of_point_Inr_iff [of r] by auto
      moreover from Inl obtain k where "e = KeyError k" using chunk_of_point_Inl by blast
      ultimately show ?thesis
        using True Inl by (auto simp: same_tenant_def Ex_less_Suc2 All_less_Suc2)
    next
      case (Inr c)
      then have "complete_payload r" using chunk_of_point_Inr_iff [of r] by auto
      with True Inr Cons.IH [of "acc @ [c]"] show ?thesis
        by (simp add: same_tenant_def Ex_less_Suc2 All_less_Suc2)
    qed
  qed
qed

lemma validate_results_returned:
  "validate_results t acc rs = Inr out \<Longrightarrow>
     \<exists>cs. out = acc @ cs \<and> list_all2 (\<lambda>r c. same_tenant t r \<and> chunk_of_point r = Inr c) rs cs"
proof (induction rs arbitrary: acc)
  case Nil
  then show ?case by simp
next
  case (Cons r rs)
  from Cons.prems have st: "same_tenant t r"
    by (auto simp: same_tenant_def split: if_splits)
  from Cons.prems st obtain c where c: "chunk_of_point r = Inr c"
    and rest: "validate_results t (acc @ [c]) rs = Inr out"
    by (auto simp: same_tenant_def split: sum.splits)
  from Cons.IH [OF rest] obtain cs where "out = (acc @ [c]) @ cs"
    "list_all2 (\<lambda>r c. same_tenant t r \<and> chunk_of_point r = Inr c) rs cs" by blast
  then have "out = acc @ (c # cs) \<and>
     list_all2 (\<lambda>r c. same_tenant t r \<and> chunk_of_point r = Inr c) (r # rs) (c # cs)"
    using st c by simp
  then show ?case by blast
qed

text \<open>
  C1, as the code has it. When the collection exists and the index returns \<open>results\<close>:
  \<open>search\<close> raises the security exception exactly when some record's stored
  \<open>tenant_id\<close> differs from the requesting tenant and every record before it has the
  requesting tenant and the payload fields that are read; whenever \<open>search\<close> returns a
  list, every record had the requesting tenant and the list holds one chunk for each
  record, in order, so a record of another tenant is never in a returned list and never
  dropped from one; and \<open>search\<close> returns a list, then of all records, exactly when
  every record has the requesting tenant and the payload fields that are read.
\<close>

theorem search_tenant_isolation:
  assumes exists: "get_collection_name tenant_id \<in> set (collections Q)"
    and results: "search_points Q (get_collection_name tenant_id) query_vector top_k
                    score_threshold tenant_id = results"
  shows "(snd (search Q tenant_id query_vector top_k score_threshold) =
            Inl (SecurityException ''Tenant isolation violation detected'') \<longleftrightarrow>
          (\<exists>i<length results. \<not> same_tenant tenant_id (results ! i) \<and>
             (\<forall>j<i. same_tenant tenant_id (results ! j) \<and> complete_payload (results ! j))))
       \<and> (\<forall>chunks. snd (search Q tenant_id query_vector top_k score_threshold) = Inr chunks \<longrightarrow>
            list_all2 (\<lambda>r c. same_tenant tenant_id r \<and> chunk_of_point r = Inr c) results chunks)
       \<and> ((\<exists>chunks. snd (search Q tenant_id query_vector top_k score_threshold) = Inr chunks) \<longleftrightarrow>
            list_all (\<lambda>r. same_tenant tenant_id r \<and> complete_payload r) results)"
proof -
  have s: "snd (search Q tenant_id query_vector top_k score_threshold) =
             validate_results tenant_id [] results"
    using exists results by (simp add: search_def Let_def)
  have b: "\<forall>chunks. validate_results tenant_id [] results = Inr chunks \<longrightarrow>
            list_all2 (\<lambda>r c. same_tenant tenant_id r \<and> chunk_of_point r = Inr c) results chunks"
    using validate_results_returned [of tenant_id "[]" results] by auto
  show ?thesis
    unfolding s
    using validate_results_security_iff [of tenant_id "[]" results] b
      validate_results_returns_iff [of tenant_id "[]" results]
    by blast
qed

theorem search_tenant_isolation_witness:
  "snd (search leaky_index ''t1'' [1] 5 (7 / 10)) =
     Inl (SecurityException ''Tenant isolation violation detected'') \<and>
   snd (search sound_index ''t1'' [1] 5 (7 / 10)) =
     Inr [[(''document_id'', JStr ''d1''), (''document_name'', JStr ''handbook.md''),
           (''chunk_text'', JStr ''text''), (''chunk_index'', JNum 0), (''score'', JNum (9 / 10))],
          [(''document_id'', JStr ''d2''), (''document_name'', JStr ''handbook.md''),
           (''chunk_text'', JStr ''text''), (''chunk_index'', JNum 0), (''score'', JNum (9 / 10))]]"
proof -
  have e1: "get_collection_name ''t1'' \<in> set (collections leaky_index)"
    by (simp add: get_collection_name_def leaky_index_def)
  have r1: "search_points leaky_index (get_collection_name ''t1'') [1] 5 (7 / 10) ''t1'' =
              [point_of ''t1'' ''d1'', point_of ''t2'' ''d2'']"
    by (simp add: leaky_index_def)
  have p1: "\<exists>i<length [point_of ''t1'' ''d1'', point_of ''t2'' ''d2''].
      \<not> same_tenant ''t1'' ([point_of ''t1'' ''d1'', point_of ''t2'' ''d2''] ! i) \<and>
      (\<forall>j<i. same_tenant ''t1'' ([point_of ''t1'' ''d1'', point_of ''t2'' ''d2''] ! j) \<and>
             complete_payload ([point_of ''t1'' ''d1'', point_of ''t2'' ''d2''] ! j))"
    by (rule exI [of _ 1])
       (simp add: complete_payload_def same_tenant_def point_of_def dict_get_def)
  have e2: "get_collection_name ''t1'' \<in> set (collections sound_index)"
    by (simp add: get_collection_name_def sound_index_def)
  have r2: "search_points sound_index (get_collection_name ''t1'') [1] 5 (7 / 10) ''t1'' =
              [point_of ''t1'' ''d1'', point_of ''t1'' ''d2'']"
    by (simp add: sound_index_def)
  have p2: "list_all (\<lambda>r. same_tenant ''t1'' r \<and> complete_payload r)
              [point_of ''t1'' ''d1'', point_of ''t1'' ''d2'']"
    by (simp add: complete_payload_def same_tenant_def point_of_def dict_get_def)
  from search_tenant_isolation [OF e1 r1] p1
  have v: "snd (search leaky_index ''t1'' [1] 5 (7 / 10)) =
     Inl (SecurityException ''Tenant isolation violation detected'')" by blast
  from search_tenant_isolation [OF e2 r2] p2
  obtain chunks where ch: "snd (search sound_index ''t1'' [1] 5 (7 / 10)) = Inr chunks"
    by blast
  from search_tenant_isolation [OF e2 r2] ch
  have "list_all2 (\<lambda>r c. same_tenant ''t1'' r \<and> chunk_of_point r = Inr c)
          [point_of ''t1'' ''d1'', point_of ''t1'' ''d2''] chunks"
    by blast
  then have "chunks = [[(''document_id'', JStr ''d1''), (''document_name'', JStr ''handbook.md''),
           (''chunk_text'', JStr ''text''), (''chunk_index'', JNum 0), (''score'', JNum (9 / 10))],
          [(''document_id'', JStr ''d2''), (''document_name'', JStr ''handbook.md''),
           (''chunk_text'', JStr ''text''), (''chunk_index'', JNum 0), (''score'', JNum (9 / 10))]]"
    by (auto simp: list_all2_Cons1 chunk_of_point_def dict_item_def point_of_def)
  with v ch show ?thesis by simp
qed

text \<open>
  C1, as stated, fails: when the index returns a record of the requesting tenant without
  a \<open>document_id\<close> and then a record of another tenant, \<open>search\<close> raises
  \<open>KeyError\<close> at the first record and never reaches the check of the second.
\<close>

theorem search_key_error_counterexample:
  "search_points broken_index (get_collection_name ''t1'') [1] 5 (7 / 10) ''t1'' =
     [partial_point ''t1'', point_of ''t2'' ''d2''] \<and>
   \<not> same_tenant ''t1'' (point_of ''t2'' ''d2'') \<and>
   snd (search broken_index ''t1'' [1] 5 (7 / 10)) = Inl (KeyError ''document_id'')"
  by (simp add: search_def broken_index_def get_collection_name_def same_tenant_def
      point_of_def partial_point_def dict_get_def chunk_of_point_def dict_item_def)

text \<open>
  C9. For a tenant whose collection is not among the collections of the index,
  \<open>search\<close> returns the empty list, raises nothing, and the only call made to the
  index is the listing of its collections: no similarity query is issued.
\<close>

theorem search_missing_collection:
  "get_collection_name tenant_id \<notin> set (collections Q) \<Longrightarrow>
     search Q tenant_id query_vector top_k score_threshold = ([Get_collections], Inr [])"
  by (simp add: search_def)

theorem search_missing_collection_witness:
  "get_collection_name ''t9'' \<notin> set (collections leaky_index) \<and>
   search leaky_index ''t9'' [1, 0] 5 (7 / 10) = ([Get_collections], Inr [])"
proof -
  have h: "get_collection_name ''t9'' \<notin> set (collections leaky_index)"
    by (simp add: get_collection_name_def leaky_index_def)
  show ?thesis using h search_missing_collection [OF h] by blast
qed

text \<open>
  C2, as the code has it. Two tenant identifiers get the same collection name exactly
  when they agree on the first 16 characters that are left once their hyphens are
  removed; identifiers that differ there get different names.
\<close>

theorem collection_name_eq_iff:
  "get_collection_name t1 = get_collection_name t2 \<longleftrightarrow>
     take 16 (filter (\<lambda>c. c \<noteq> CHR ''-'') t1) = take 16 (filter (\<lambda>c. c \<noteq> CHR ''-'') t2)"
  by (simp add: get_collection_name_def)

theorem collection_name_eq_iff_witness:
  "get_collection_name ''123e4567-e89b-12d3-a456-426614174000'' \<noteq>
   get_collection_name ''987f6543-e89b-12d3-a456-426614174000''"
  using collection_name_eq_iff [of "''123e4567-e89b-12d3-a456-426614174000''"
      "''987f6543-e89b-12d3-a456-426614174000''"]
  by simp

text \<open>
  C2, as stated, fails: two distinct UUIDs that share their first 16 hexadecimal digits
  get the same collection name.
\<close>

theorem collection_name_counterexample:
  "''123e4567-e89b-12d3-a456-426614174000'' \<noteq> ''123e4567-e89b-12d3-b456-426614174001'' \<and>
   get_collection_name ''123e4567-e89b-12d3-a456-426614174000'' =
   get_collection_name ''123e4567-e89b-12d3-b456-426614174001''"
  by (simp add: get_collection_name_def)

subsection \<open>Cache key\<close>

lemma sort_mset_cong: "mset xs = mset ys \<Longrightarrow> sort xs = sort (ys :: string list)"
  by (metis properties_for_sort sorted_sort mset_sort)

text \<open>
  C6. Two lists of fragment identifiers that are permutations of each other give the
  same cache key, for every tenant, question and digest function.
\<close>

theorem cache_key_order_invariant:
  "mset ids1 = mset ids2 \<Longrightarrow>
     generate_cache_key H t q ids1 = generate_cache_key H t q ids2"
  using sort_mset_cong [of ids1 ids2]
  by (simp add: generate_cache_key_def cache_key_content_def)

theorem cache_key_order_invariant_witness:
  "mset [''a'', ''b''] = mset [''b'', ''a''] \<and>
   generate_cache_key rev ''t'' ''q'' [''a'', ''b''] =
   generate_cache_key rev ''t'' ''q'' [''b'', ''a'']"
proof -
  have h: "mset [''a'', ''b''] = mset [''b'', ''a'']" by (simp add: add.commute)
  show ?thesis using h cache_key_order_invariant [OF h, of rev "''t''" "''q''"] by blast
qed

subsection \<open>Cache admission\<close>

lemma redis_get_after_setex:
  "redis_setex R now k ttl v = Inr R' \<Longrightarrow> now' < now + real_of_int ttl \<Longrightarrow>
     redis_get R' now' k = Some v"
  by (auto simp: redis_setex_def redis_get_def live_def split: if_splits)

lemma cache_response_skipped:
  assumes "dict_get response ''confidence'' (JNum 0) = JNum c"
    and "c < conf_threshold \<or> truthy (dict_get response ''insufficient_context'' JNull) \<or>
         list_ex (str_contains (lower question)) (time_keywords @ personal_keywords)"
  shows "cache_response S H R now tenant_id question ids response ttl = Inr R"
  using assms by (auto simp: cache_response_def Let_def split: bool.splits)

lemma cache_response_admitted:
  assumes "dict_get response ''confidence'' (JNum 0) = JNum c"
    and "\<not> c < conf_threshold"
    and "\<not> truthy (dict_get response ''insufficient_context'' JNull)"
    and "\<not> list_ex (str_contains (lower question)) (time_keywords @ personal_keywords)"
    and "0 < ttl_or_default S ttl"
  shows "cache_response S H R now tenant_id question ids response ttl =
           Inr (R(generate_cache_key H tenant_id question ids \<mapsto>
                  \<lparr> stored = JObj response,
                    expires_at = Some (now + real_of_int (ttl_or_default S ttl)) \<rparr>))"
  using assms by (simp add: cache_response_def Let_def redis_setex_def)

lemma get_cached_response_stored:
  assumes "now' < e"
  shows "get_cached_response H (R(generate_cache_key H tenant_id question ids \<mapsto>
                  \<lparr> stored = v, expires_at = Some e \<rparr>)) now' tenant_id question ids = Some v"
  using assms by (simp add: get_cached_response_def redis_get_def live_def)

text \<open>
  C4, as the code has it. For a response whose confidence is a number \<open>c\<close> (or is
  absent, which counts as 0): if \<open>c\<close> is below the threshold 0.7, or the \<open>insufficient_context\<close> flag is true,
  or the lowercased question contains a time-sensitive or personal marker, then
  \<open>cache_response\<close> returns normally and leaves the store as it was. Otherwise, with a
  positive time to live (the given one, or the configured default when none or 0 is
  given), the response is stored under the derived key with that time to live, and
  \<open>get_cached_response\<close> with the same inputs returns it at every time before the
  expiry.
\<close>

theorem cache_admission:
  assumes conf: "dict_get response ''confidence'' (JNum 0) = JNum c"
  shows "(c < conf_threshold \<or> truthy (dict_get response ''insufficient_context'' JNull) \<or>
          list_ex (str_contains (lower question)) (time_keywords @ personal_keywords) \<longrightarrow>
            cache_response S H R now tenant_id question ids response ttl = Inr R)
       \<and> (\<not> c < conf_threshold \<and> \<not> truthy (dict_get response ''insufficient_context'' JNull) \<and>
          \<not> list_ex (str_contains (lower question)) (time_keywords @ personal_keywords) \<and>
          0 < ttl_or_default S ttl \<longrightarrow>
            (\<exists>R'. cache_response S H R now tenant_id question ids response ttl = Inr R' \<and>
                  R' = R(generate_cache_key H tenant_id question ids \<mapsto>
                         \<lparr> stored = JObj response,
                           expires_at = Some (now + real_of_int (ttl_or_default S ttl)) \<rparr>) \<and>
                  (\<forall>now'. now' < now + real_of_int (ttl_or_default S ttl) \<longrightarrow>
                     get_cached_response H R' now' tenant_id question ids =
                       Some (JObj response))))"
  using cache_response_skipped [OF conf] cache_response_admitted [OF conf]
    get_cached_response_stored
  by (intro conjI impI; simp)

lemma personal_marker_example: "list_ex (str_contains (lower ''What is my vacation policy?'')) (time_keywords @ personal_keywords)"
  by code_simp

lemma no_marker_example: "\<not> list_ex (str_contains (lower ''How many vacation days are granted?'')) (time_keywords @ personal_keywords)"
  by code_simp

theorem cache_admission_witness:
  "cache_response settings rev Map.empty 1000 ''t1'' ''How many vacation days are granted?''
      [''d1''] (answer_with (69 / 100)) None = Inr Map.empty \<and>
   cache_response settings rev Map.empty 1000 ''t1'' ''What is my vacation policy?''
      [''d1''] (answer_with (9 / 10)) None = Inr Map.empty \<and>
   (\<exists>R'. cache_response settings rev Map.empty 1000 ''t1'' ''How many vacation days are granted?''
      [''d1''] (answer_with (95 / 100)) None = Inr R' \<and>
      get_cached_response rev R' 4599 ''t1'' ''How many vacation days are granted?'' [''d1'']
        = Some (JObj (answer_with (95 / 100))))"
proof -
  have c: "\<And>x. dict_get (answer_with x) ''confidence'' (JNum 0) = JNum x"
    by (simp add: answer_with_def dict_get_def)
  have i: "\<And>x. \<not> truthy (dict_get (answer_with x) ''insufficient_context'' JNull)"
    by (simp add: answer_with_def dict_get_def)
  have t: "ttl_or_default settings None = 3600"
    by (simp add: ttl_or_default_def settings_def)
  have a: "(69 / 100 :: real) < conf_threshold" "\<not> (95 / 100 :: real) < conf_threshold"
    by (simp_all add: conf_threshold_def)
  from cache_admission [OF c [of "69 / 100"],
      where question = "''How many vacation days are granted?''" and S = settings and H = rev
        and R = Map.empty and now = 1000 and tenant_id = "''t1''" and ids = "[''d1'']"
        and ttl = None] a
  have 1: "cache_response settings rev Map.empty 1000 ''t1''
      ''How many vacation days are granted?'' [''d1''] (answer_with (69 / 100)) None = Inr Map.empty"
    by blast
  from cache_admission [OF c [of "9 / 10"],
      where question = "''What is my vacation policy?''" and S = settings and H = rev
        and R = Map.empty and now = 1000 and tenant_id = "''t1''" and ids = "[''d1'']"
        and ttl = None] personal_marker_example
  have 2: "cache_response settings rev Map.empty 1000 ''t1''
      ''What is my vacation policy?'' [''d1''] (answer_with (9 / 10)) None = Inr Map.empty"
    by blast
  from cache_admission [OF c [of "95 / 100"],
      where question = "''How many vacation days are granted?''" and S = settings and H = rev
        and R = Map.empty and now = 1000 and tenant_id = "''t1''" and ids = "[''d1'']"
        and ttl = None] a i [of "95 / 100"] no_marker_example t
  have 3: "\<exists>R'. cache_response settings rev Map.empty 1000 ''t1'' ''How many vacation days are granted?''
      [''d1''] (answer_with (95 / 100)) None = Inr R' \<and>
      get_cached_response rev R' 4599 ''t1'' ''How many vacation days are granted?'' [''d1'']
        = Some (JObj (answer_with (95 / 100)))"
    by force
  from 1 2 3 show ?thesis by blast
qed

text \<open>
  C4, as stated, fails: for a response with the \<open>insufficient_context\<close> flag set and
  \<open>null\<close> as its confidence, the comparison with 0.7 raises \<open>TypeError\<close> before the
  flag is looked at.
\<close>

theorem cache_null_confidence_counterexample:
  "truthy (dict_get [(''answer'', JNull), (''sources'', JArr []), (''confidence'', JNull),
                     (''insufficient_context'', JBool True)] ''insufficient_context'' JNull) \<and>
   cache_response settings rev Map.empty 1000 ''t1'' ''How many vacation days are granted?''
     [''d1'']
     [(''answer'', JNull), (''sources'', JArr []), (''confidence'', JNull),
      (''insufficient_context'', JBool True)] None = Inl TypeError"
  by (simp add: cache_response_def dict_get_def)

text \<open>
  C10, with the example the code supports. For every tenant the questions \<open>q:a\<close> with
  identifiers \<open>[b]\<close> and \<open>q\<close> with identifiers \<open>[a, b]\<close> are distinct inputs with the
  same text before hashing, hence the same cache key for every digest function; an
  answer cached for the first is returned by a lookup for the second.
\<close>

theorem cache_key_collision:
  "(''q:a'', [''b'']) \<noteq> (''q'', [''a'', ''b'']) \<and>
   cache_key_content t ''q:a'' [''b''] = cache_key_content t ''q'' [''a'', ''b''] \<and>
   generate_cache_key H t ''q:a'' [''b''] = generate_cache_key H t ''q'' [''a'', ''b''] \<and>
   (\<exists>R'. cache_response settings H R now t ''q:a'' [''b''] (answer_with (95 / 100)) None = Inr R' \<and>
         get_cached_response H R' (now + 1) t ''q'' [''a'', ''b''] =
           Some (JObj (answer_with (95 / 100))))"
proof -
  have content: "cache_key_content t ''q:a'' [''b''] = cache_key_content t ''q'' [''a'', ''b'']"
    by (simp add: cache_key_content_def)
  then have key: "generate_cache_key H t ''q:a'' [''b''] = generate_cache_key H t ''q'' [''a'', ''b'']"
    by (simp add: generate_cache_key_def)
  have c: "dict_get (answer_with (95 / 100)) ''confidence'' (JNum 0) = JNum (95 / 100)"
    by (simp add: answer_with_def dict_get_def)
  have i: "\<not> truthy (dict_get (answer_with (95 / 100)) ''insufficient_context'' JNull)"
    by (simp add: answer_with_def dict_get_def)
  have m: "\<not> list_ex (str_contains (lower ''q:a'')) (time_keywords @ personal_keywords)"
    by code_simp
  have d: "ttl_or_default settings None = 3600"
    by (simp add: ttl_or_default_def settings_def)
  have a: "\<not> (95 / 100 :: real) < conf_threshold"
    by (simp add: conf_threshold_def)
  have put: "cache_response settings H R now t ''q:a'' [''b''] (answer_with (95 / 100)) None =
      Inr (R(generate_cache_key H t ''q:a'' [''b''] \<mapsto>
             \<lparr> stored = JObj (answer_with (95 / 100)), expires_at = Some (now + 3600) \<rparr>))"
    using cache_response_admitted [OF c a i m, of settings None H R now t "[''b'']"] d by simp
  have got: "get_cached_response H
      (R(generate_cache_key H t ''q'' [''a'', ''b''] \<mapsto>
             \<lparr> stored = JObj (answer_with (95 / 100)), expires_at = Some (now + 3600) \<rparr>))
      (now + 1) t ''q'' [''a'', ''b''] = Some (JObj (answer_with (95 / 100)))"
    by (rule get_cached_response_stored) simp
  from put got key content show ?thesis by simp
qed

text \<open>
  C10, as stated, names an example that does not collide: for \<open>q:a\<close> with no identifiers
  the text before hashing ends in a colon, for \<open>q\<close> with the identifier \<open>a\<close> it does
  not.
\<close>

theorem cache_key_example_counterexample:
  "cache_key_content ''t'' ''q:a'' [] \<noteq> cache_key_content ''t'' ''q'' [''a'']"
  by (simp add: cache_key_content_def)

subsection \<open>Rate limiter\<close>






lemma check_rate_limit_first:
  assumes "R (rate_limit_key t op now) = None"
  shows "check_rate_limit S R now t op =
           Inr (R(rate_limit_key t op now \<mapsto> \<lparr> stored = JNum 1, expires_at = Some (now + 60) \<rparr>),
                1 \<le> queries_per_minute S)"
  using assms
  by (auto simp: check_rate_limit_def redis_incr_def redis_expire_def live_def Let_def)








subsection \<open>Query endpoint\<close>

lemma conf_threshold_pos: "0 < conf_threshold"
  by (simp add: conf_threshold_def)

lemma cache_response_no_context:
  "cache_response S H R now tenant_id question ids no_context_result ttl = Inr R"
  by (rule cache_response_skipped [where c = 0])
     (simp_all add: no_context_result_def dict_get_def conf_threshold_pos)

lemma answer_query_empty:
  "answer_query S X R ck tenant_id tenant_name question trace [] ids =
     (R, trace @ [Create_query_log tenant_id question no_context_result 0 (JNum 0),
                  Create_audit_log tenant_id ''query_execute''],
      Inr (make_response ck no_context_result False))"
proof -
  have p: "dict_pop no_context_result ''_tokens'' (JObj []) = (JObj [], no_context_result)"
    by (simp add: dict_pop_def dict_get_def no_context_result_def)
  show ?thesis
    by (simp add: answer_query_def p cache_response_no_context dict_get_def)
qed

lemma answer_query_calls:
  assumes "Generate_answer q [] n \<notin> set trace"
  shows "Generate_answer q [] n \<notin> set (fst (snd (answer_query S X R ck tenant_id tenant_name question
           trace chunks ids)))"
proof (cases "chunks = []")
  case True
  with assms show ?thesis by (simp add: answer_query_empty)
next
  case False
  with assms show ?thesis
    by (auto simp: answer_query_def Let_def split: sum.splits prod.splits json.splits)
qed

lemma check_cache_calls:
  assumes "Generate_answer q [] n \<notin> set trace"
  shows "Generate_answer q [] n \<notin> set (fst (snd (check_cache S X R ck tenant_id tenant_name question
           trace chunks)))"
  using assms answer_query_calls [OF assms]
  by (auto simp: check_cache_def split: sum.splits option.splits json.splits)

lemma query_knowledge_base_calls:
  "Generate_answer q [] n \<notin> set (fst (snd (query_knowledge_base S X R ck tenant_id tenant_name
     question)))"
proof -
  have "\<And>asked R1 chunks. Generate_answer q [] n \<notin> set (fst (snd (check_cache S X R1 ck tenant_id
          tenant_name question [Embed_text question, Vector_store asked] chunks)))"
    by (rule check_cache_calls) simp
  then show ?thesis
    by (auto simp: query_knowledge_base_def split: sum.splits prod.splits error.splits)
qed

text \<open>
  C3. When the rate limiter allows the request, the embedding succeeds, retrieval
  yields no fragment and the cache has no answer for the question, the endpoint returns
  a response with \<open>insufficient_context = true\<close>, \<open>confidence = 0.0\<close> and no answer,
  and no call to \<open>generate_answer\<close> is made. For every request whatsoever,
  \<open>generate_answer\<close> is never called with an empty context list.
\<close>

theorem empty_retrieval_short_circuit:
  "(check_rate_limit S R (rate_time ck) tenant_id ''query'' = Inr (R1, True) \<and>
    embed_text X question = Inr v \<and>
    snd (search (vector_client X) tenant_id v (top_k_chunks S) (similarity_threshold S)) = Inr [] \<and>
    (\<forall>j. get_cached_response (sha256_hexdigest X) R1 (get_time ck) tenant_id question [] = Some j
         \<longrightarrow> \<not> truthy j) \<longrightarrow>
      (\<exists>calls resp.
          query_knowledge_base S X R ck tenant_id tenant_name question = (R1, calls, Inr resp) \<and>
          insufficient_context resp = JBool True \<and> confidence resp = JNum 0 \<and>
          answer resp = JNull \<and> cached resp = False \<and> synthesis_calls calls = []))
   \<and> (\<forall>q n. Generate_answer q [] n \<notin>
          set (fst (snd (query_knowledge_base S X R ck tenant_id tenant_name question))))"
proof (intro conjI impI allI)
  assume a: "check_rate_limit S R (rate_time ck) tenant_id ''query'' = Inr (R1, True) \<and>
    embed_text X question = Inr v \<and>
    snd (search (vector_client X) tenant_id v (top_k_chunks S) (similarity_threshold S)) = Inr [] \<and>
    (\<forall>j. get_cached_response (sha256_hexdigest X) R1 (get_time ck) tenant_id question [] = Some j
         \<longrightarrow> \<not> truthy j)"
  obtain asked where s: "search (vector_client X) tenant_id v (top_k_chunks S)
      (similarity_threshold S) = (asked, Inr [])"
    using a by (cases "search (vector_client X) tenant_id v (top_k_chunks S)
      (similarity_threshold S)") auto
  let ?trace = "[Embed_text question, Vector_store asked]"
  let ?out = "(R1, ?trace @ [Create_query_log tenant_id question no_context_result 0 (JNum 0),
                  Create_audit_log tenant_id ''query_execute''],
      Inr (make_response ck no_context_result False))"
  have c: "check_cache S X R1 ck tenant_id tenant_name question ?trace [] = ?out"
    using a by (auto simp: check_cache_def answer_query_empty split: option.splits)
  have q: "query_knowledge_base S X R ck tenant_id tenant_name question = ?out"
    using a s c by (simp add: query_knowledge_base_def)
  have r: "insufficient_context (make_response ck no_context_result False) = JBool True \<and>
           confidence (make_response ck no_context_result False) = JNum 0 \<and>
           answer (make_response ck no_context_result False) = JNull \<and>
           cached (make_response ck no_context_result False) = False"
    by (simp add: make_response_def no_context_result_def dict_get_def)
  have y: "synthesis_calls (?trace @ [Create_query_log tenant_id question no_context_result 0 (JNum 0),
                  Create_audit_log tenant_id ''query_execute'']) = []"
    by (simp add: synthesis_calls_def)
  from q r y show "\<exists>calls resp.
          query_knowledge_base S X R ck tenant_id tenant_name question = (R1, calls, Inr resp) \<and>
          insufficient_context resp = JBool True \<and> confidence resp = JNum 0 \<and>
          answer resp = JNull \<and> cached resp = False \<and> synthesis_calls calls = []"
    by blast
next
  fix q n
  show "Generate_answer q [] n \<notin>
          set (fst (snd (query_knowledge_base S X R ck tenant_id tenant_name question)))"
    by (rule query_knowledge_base_calls)
qed

theorem empty_retrieval_short_circuit_witness:
  "\<exists>R1 calls resp.
      query_knowledge_base settings sample_externals Map.empty sample_clock ''t9'' ''Acme''
        ''How many vacation days are granted?'' = (R1, calls, Inr resp) \<and>
      insufficient_context resp = JBool True \<and> confidence resp = JNum 0 \<and>
      synthesis_calls calls = []"
proof -
  let ?R1 = "Map.empty(rate_limit_key ''t9'' ''query'' 1000 \<mapsto>
               \<lparr> stored = JNum 1, expires_at = Some (1000 + 60) \<rparr>)"
  have rate: "check_rate_limit settings Map.empty (rate_time sample_clock) ''t9'' ''query'' =
      Inr (?R1, True)"
    using check_rate_limit_first [where R = Map.empty and t = "''t9''" and op = "''query''"
        and now = 1000 and S = settings]
    by (simp add: sample_clock_def settings_def)
  have embed: "embed_text sample_externals ''How many vacation days are granted?'' = Inr [1, 0]"
    by (simp add: sample_externals_def)
  have none: "snd (search (vector_client sample_externals) ''t9'' [1, 0] (top_k_chunks settings)
      (similarity_threshold settings)) = Inr []"
    by (simp add: search_def sample_externals_def leaky_index_def get_collection_name_def)
  have miss: "\<forall>j. get_cached_response (sha256_hexdigest sample_externals) ?R1
      (get_time sample_clock) ''t9'' ''How many vacation days are granted?'' [] = Some j
         \<longrightarrow> \<not> truthy j"
    by (simp add: get_cached_response_def redis_get_def generate_cache_key_def
        rate_limit_key_def)
  from empty_retrieval_short_circuit [where S = settings and R = Map.empty and ck = sample_clock
      and tenant_id = "''t9''" and ?R1.0 = ?R1 and X = sample_externals
      and question = "''How many vacation days are granted?''" and v = "[1, 0]"
      and tenant_name = "''Acme''"] rate embed none miss
  show ?thesis by blast
qed

subsection \<open>Chunker\<close>

lemma range_from_stop: "stop \<le> i \<Longrightarrow> range_from i stop step = []"
  by (simp add: range_from.simps)

lemma range_from_step: "0 < step \<Longrightarrow> i < stop \<Longrightarrow>
    range_from i stop step = i # range_from (i + step) stop step"
  by (subst range_from.simps) simp

lemma range_from_single: "0 < step \<Longrightarrow> 0 < n \<Longrightarrow> n \<le> step \<Longrightarrow> range_from 0 n step = [0]"
  by (simp add: range_from_step range_from_stop)

lemma range_from_nth:
  "k < length (range_from i stop step) \<Longrightarrow> range_from i stop step ! k = i + int k * step"
proof (induction i stop step arbitrary: k rule: range_from.induct)
  case (1 i stop step)
  show ?case
  proof (cases "0 < step \<and> i < stop")
    case True
    then have e: "range_from i stop step = i # range_from (i + step) stop step"
      by (simp add: range_from_step)
    show ?thesis
    proof (cases k)
      case 0
      then show ?thesis by (simp add: e)
    next
      case (Suc j)
      with "1.prems" e have "j < length (range_from (i + step) stop step)" by simp
      from "1.IH" [OF True this] show ?thesis by (simp add: e Suc algebra_simps)
    qed
  next
    case False
    with "1.prems" show ?thesis by (simp add: range_from.simps [of i stop step])
  qed
qed

lemma range_from_last:
  "range_from i stop step \<noteq> [] \<Longrightarrow> stop \<le> last (range_from i stop step) + step"
proof (induction i stop step rule: range_from.induct)
  case (1 i stop step)
  show ?case
  proof (cases "0 < step \<and> i < stop")
    case True
    then have e: "range_from i stop step = i # range_from (i + step) stop step"
      by (simp add: range_from_step)
    show ?thesis
    proof (cases "range_from (i + step) stop step = []")
      case True
      then have "stop \<le> i + step"
        using \<open>0 < step \<and> i < stop\<close> by (auto simp: range_from.simps [of "i + step"] split: if_splits)
      with True e show ?thesis by simp
    next
      case False
      from "1.IH" [OF True False] False e show ?thesis by simp
    qed
  next
    case False
    with "1.prems" show ?thesis by (simp add: range_from.simps [of i stop step])
  qed
qed

lemma range_from_nonempty_step: "range_from i stop step \<noteq> [] \<Longrightarrow> 0 < step"
  by (auto simp: range_from.simps [of i stop step] split: if_splits)

lemma length_chunk_at [simp]: "length (chunk_at S tk tokens chunks i) = Suc (length chunks)"
  by (simp add: chunk_at_def Let_def)

lemma length_foldl_chunk_at:
  "length (foldl (chunk_at S tk tokens) acc offsets) = length acc + length offsets"
  by (induction offsets arbitrary: acc) simp_all

lemma foldl_chunk_at_old:
  "j < length acc \<Longrightarrow> foldl (chunk_at S tk tokens) acc offsets ! j = acc ! j"
proof (induction offsets arbitrary: acc)
  case Nil
  then show ?case by simp
next
  case (Cons i offsets)
  have "foldl (chunk_at S tk tokens) (chunk_at S tk tokens acc i) offsets ! j =
        chunk_at S tk tokens acc i ! j"
    by (rule Cons.IH) (use Cons.prems in simp)
  also have "\<dots> = acc ! j" using Cons.prems by (simp add: chunk_at_def Let_def nth_append)
  finally show ?case by simp
qed

lemma foldl_chunk_at_text:
  "k < length offsets \<Longrightarrow>
     dict_get (foldl (chunk_at S tk tokens) acc offsets ! (length acc + k)) ''text'' JNull =
       JStr (let i = offsets ! k; window = decode tk (py_slice tokens i (i + chunk_size S))
             in if i + chunk_size S < int (length tokens) then trim_to_sentence S window
                else window)"
proof (induction offsets arbitrary: acc k)
  case Nil
  then show ?case by simp
next
  case (Cons i offsets)
  show ?case
  proof (cases k)
    case 0
    have a: "foldl (chunk_at S tk tokens) (chunk_at S tk tokens acc i) offsets ! length acc =
          chunk_at S tk tokens acc i ! length acc"
      by (rule foldl_chunk_at_old) simp
    have b: "foldl (chunk_at S tk tokens) acc (i # offsets) ! (length acc + k) =
          chunk_at S tk tokens acc i ! length acc"
      using a by (simp only: 0 foldl.simps add_0_right)
    show ?thesis
      unfolding b by (simp add: 0 chunk_at_def Let_def dict_get_def)
  next
    case (Suc j)
    with Cons.prems have j: "j < length offsets" by simp
    from Cons.IH [OF j, of "chunk_at S tk tokens acc i"]
    show ?thesis by (simp add: Suc)
  qed
qed

text \<open>
  C7, as the code has it. A text that tokenizes to no token gives the empty list of
  chunks and no error (for \<open>chunk_size \<noteq> chunk_overlap\<close>; a zero step makes \<open>range\<close>
  raise). A text with at least one token and at most \<open>chunk_size - chunk_overlap\<close>
  tokens gives exactly one chunk.
\<close>

theorem chunk_text_small_inputs:
  "(chunk_size S \<noteq> chunk_overlap S \<and> encode tk txt = [] \<longrightarrow> chunk_text S tk txt = Inr [])
   \<and> (chunk_overlap S < chunk_size S \<and> encode tk txt \<noteq> [] \<and>
      int (length (encode tk txt)) \<le> chunk_size S - chunk_overlap S \<longrightarrow>
        (\<exists>c. chunk_text S tk txt = Inr [c]))"
proof (intro conjI impI)
  assume "chunk_size S \<noteq> chunk_overlap S \<and> encode tk txt = []"
  then show "chunk_text S tk txt = Inr []"
    by (simp add: chunk_text_def py_range_def range_from_stop)
next
  assume a: "chunk_overlap S < chunk_size S \<and> encode tk txt \<noteq> [] \<and>
      int (length (encode tk txt)) \<le> chunk_size S - chunk_overlap S"
  then have "range_from 0 (int (length (encode tk txt))) (chunk_size S - chunk_overlap S) = [0]"
    by (intro range_from_single) simp_all
  with a have "chunk_text S tk txt = Inr [hd (chunk_at S tk (encode tk txt) [] 0)]"
    by (simp add: chunk_text_def py_range_def Let_def chunk_at_def)
  then show "\<exists>c. chunk_text S tk txt = Inr [c]" ..
qed

text \<open>
  What the loop gives chunk \<open>k\<close>: the decoded window at offset
  \<open>k * (chunk_size - chunk_overlap)\<close>, cut after its last period when the window ends
  before the end of the token sequence and the index of that period in the decoded text
  is greater than the double \<open>chunk_size * 0.7\<close>; otherwise the whole decoded window.
  With a non-negative overlap the last chunk is never cut.
\<close>

lemma chunk_text_trimming:
  assumes "chunk_text S tk txt = Inr chunks" and "k < length chunks"
  shows "let tokens = encode tk txt;
             i = int k * (chunk_size S - chunk_overlap S);
             window = decode tk (py_slice tokens i (i + chunk_size S));
             last_period = rfind window (CHR ''.'')
         in dict_get (chunks ! k) ''text'' JNull =
              JStr (if i + chunk_size S < int (length tokens) \<and>
                       real_of_int last_period > times_0_7 (chunk_size S)
                    then take (nat (last_period + 1)) window else window)
            \<and> (0 \<le> chunk_overlap S \<and> Suc k = length chunks \<longrightarrow>
                 dict_get (chunks ! k) ''text'' JNull = JStr window)"
proof -
  let ?tokens = "encode tk txt"
  let ?step = "chunk_size S - chunk_overlap S"
  let ?offsets = "range_from 0 (int (length ?tokens)) ?step"
  let ?i = "int k * ?step"
  let ?window = "decode tk (py_slice ?tokens ?i (?i + chunk_size S))"
  from assms(1) have chunks: "chunks = foldl (chunk_at S tk ?tokens) [] ?offsets"
    by (auto simp: chunk_text_def py_range_def Let_def split: if_splits)
  with assms(2) have k: "k < length ?offsets" by (simp add: length_foldl_chunk_at)
  then have i: "?offsets ! k = ?i" by (simp add: range_from_nth)
  have shape: "dict_get (chunks ! k) ''text'' JNull =
      JStr (if ?i + chunk_size S < int (length ?tokens) then trim_to_sentence S ?window
            else ?window)"
    using foldl_chunk_at_text [OF k, of S tk ?tokens "[]"] by (simp add: chunks i Let_def)
  have final: "\<not> ?i + chunk_size S < int (length ?tokens)"
    if "0 \<le> chunk_overlap S" "Suc k = length chunks"
  proof -
    from k have ne: "?offsets \<noteq> []" by auto
    from that(2) chunks have "Suc k = length ?offsets" by (simp add: length_foldl_chunk_at)
    then have "length ?offsets - 1 = k" by simp
    with last_conv_nth [OF ne] have "last ?offsets = ?offsets ! k" by metis
    with range_from_last [OF ne] i have "int (length ?tokens) \<le> ?i + ?step" by simp
    with that(1) show ?thesis by simp
  qed
  show ?thesis
    unfolding Let_def using shape final by (auto simp: trim_to_sentence_def Let_def)
qed


lemma range_from_two:
  "0 < step \<Longrightarrow> step < n \<Longrightarrow> n \<le> 2 * step \<Longrightarrow> range_from 0 n step = [0, step]"
  by (simp add: range_from_step range_from_stop)

lemma chunk_text_default:
  "chunk_text settings tk txt =
     Inr (foldl (chunk_at settings tk (encode tk txt)) []
            (range_from 0 (int (length (encode tk txt))) 450))"
  by (simp add: chunk_text_def py_range_def settings_def Let_def)

theorem chunk_text_small_inputs_witness:
  "chunk_text settings char_tokenizer [] = Inr [] \<and>
   (\<exists>c. chunk_text settings char_tokenizer ''Hello world.'' = Inr [c])"
proof -
  have a: "chunk_size settings \<noteq> chunk_overlap settings \<and> encode char_tokenizer [] = []"
    by (simp add: settings_def char_tokenizer_def)
  have b: "chunk_overlap settings < chunk_size settings \<and>
      encode char_tokenizer ''Hello world.'' \<noteq> [] \<and>
      int (length (encode char_tokenizer ''Hello world.'')) \<le>
        chunk_size settings - chunk_overlap settings"
    by (simp add: settings_def char_tokenizer_def)
  from chunk_text_small_inputs [of settings char_tokenizer "[]"] a
    chunk_text_small_inputs [of settings char_tokenizer "''Hello world.''"] b
  show ?thesis by blast
qed

text \<open>
  C7, as stated, fails: with the default settings a text of 451 tokens, fewer than
  \<open>chunk_size = 500\<close>, gives two chunks, the second one starting at offset 450.
\<close>

theorem chunk_text_two_chunks_counterexample:
  "encode char_tokenizer (replicate 451 (CHR ''a'')) \<noteq> [] \<and>
   int (length (encode char_tokenizer (replicate 451 (CHR ''a'')))) \<le> chunk_size settings \<and>
   map_sum id length (chunk_text settings char_tokenizer (replicate 451 (CHR ''a''))) = Inr 2"
proof -
  have n: "length (encode char_tokenizer (replicate 451 (CHR ''a''))) = 451"
    by (simp add: char_tokenizer_def)
  have r: "range_from 0 (int (451::nat)) 450 = [0, 450]"
    by (rule range_from_two) simp_all
  have "map_sum id length (chunk_text settings char_tokenizer (replicate 451 (CHR ''a''))) = Inr 2"
    by (simp only: chunk_text_default n r map_sum.simps length_foldl_chunk_at) simp
  moreover have "encode char_tokenizer (replicate 451 (CHR ''a'')) \<noteq> []"
    using n by auto
  ultimately show ?thesis by (simp add: n settings_def)
qed

lemma bit_length_default: "bit_length 1576259869579673500 = 61" "bit_length 500 = 9"
  by (simp_all add: bit_length.simps)

lemma times_0_7_default: "times_0_7 (chunk_size settings) = 350"
proof -
  have a: "round53 500 = 500"
    by (simp add: round53_def bit_length_default)
  have b: "round53 1576259869579673500 = 1576259869579673600"
    by (simp add: round53_def bit_length_default Let_def)
  show ?thesis
    by (simp add: times_0_7_def settings_def a b Let_def)
qed

lemma rfind_absent: "c \<notin> set xs \<Longrightarrow> rfind xs c = - 1"
  by (induction xs) (auto simp: Let_def)

lemma rfind_last_occurrence: "c \<notin> set ys \<Longrightarrow> rfind (xs @ c # ys) c = int (length xs)"
  by (induction xs) (simp_all add: Let_def rfind_absent)

lemma code_string_code: "code_string (string_code s) = s"
proof (induction s)
  case Nil
  then show ?case by (simp add: code_string.simps)
next
  case (Cons c cs)
  have d: "(of_char c :: nat) < 257"
    using nat_of_char_less_256 [of c] by linarith
  have m: "(of_char c + 257 * string_code cs) mod 257 = (of_char c :: nat)"
    using d by simp
  have q: "(of_char c + 257 * string_code cs) div 257 = string_code cs"
    using d by simp
  show ?case
    by (subst code_string.simps) (simp add: m q Cons.IH mod_less [OF d])
qed

lemma blocks_Nil: "blocks m [] = []"
  by (simp add: blocks.simps)

lemma concat_take_blocks: "0 < m \<Longrightarrow> concat (take k (blocks m xs)) = take (k * m) xs"
proof (induction k arbitrary: xs)
  case 0
  then show ?case by simp
next
  case (Suc k)
  show ?case
  proof (cases "xs = []")
    case True
    then show ?thesis by (simp add: blocks_Nil)
  next
    case False
    with Suc.prems have b: "blocks m xs = take m xs # blocks m (drop m xs)"
      by (subst blocks.simps) simp
    have "concat (take (Suc k) (blocks m xs)) = take m xs @ take (k * m) (drop m xs)"
      by (simp add: b Suc.IH [OF Suc.prems])
    also have "\<dots> = take (m + k * m) xs"
      by (simp add: take_add)
    finally show ?thesis by simp
  qed
qed

lemma length_blocks_ge: "0 < m \<Longrightarrow> length xs \<le> m * length (blocks m xs)"
proof (induction m xs rule: blocks.induct)
  case (1 m xs)
  show ?case
  proof (cases "xs = []")
    case True
    then show ?thesis by simp
  next
    case False
    with "1.prems" have b: "blocks m xs = take m xs # blocks m (drop m xs)"
      by (subst blocks.simps) simp
    from "1.IH" "1.prems" False have "length (drop m xs) \<le> m * length (blocks m (drop m xs))"
      by simp
    then show ?thesis by (simp add: b)
  qed
qed


lemma long_words_split:
  "long_words = (''word'' @ concat (replicate 79 '' word'')) @
                 CHR ''.'' # concat (replicate 1000 '' word'')"
  by (simp add: long_words_def)

lemma length_long_words_prefix: "length (''word'' @ concat (replicate 79 '' word'')) = 399"
  by (simp add: length_concat sum_list_replicate)

lemma no_period_in_words: "CHR ''.'' \<notin> set (concat (replicate n '' word''))"
  by (induction n) simp_all

lemma take_past_separator:
  assumes "length P = p" and "Suc p \<le> n"
  shows "take n (P @ c # Q) = P @ c # take (n - Suc p) Q"
proof -
  have "n - p = Suc (n - Suc p)" using assms by arith
  then show ?thesis using assms by simp
qed

lemma rfind_long_words_prefix:
  assumes "400 \<le> n"
  shows "rfind (take n long_words) (CHR ''.'') = 399"
    and "take 400 (take n long_words) = ''word'' @ concat (replicate 79 '' word'') @ ''.''"
proof -
  let ?P = "''word'' @ concat (replicate 79 '' word'')"
  let ?Q = "concat (replicate 1000 '' word'')"
  have t: "take n long_words = ?P @ CHR ''.'' # take (n - Suc 399) ?Q"
    unfolding long_words_split
    by (rule take_past_separator [OF length_long_words_prefix]) (use assms in simp)
  have "CHR ''.'' \<notin> set (take (n - Suc 399) ?Q)"
    using no_period_in_words [of 1000] by (meson in_set_takeD)
  from rfind_last_occurrence [OF this, of ?P]
  show "rfind (take n long_words) (CHR ''.'') = 399"
    unfolding t length_long_words_prefix by simp
  have "take 400 (?P @ CHR ''.'' # take (n - Suc 399) ?Q) = ?P @ [CHR ''.'']"
    using take_past_separator [OF length_long_words_prefix, of 400 "CHR ''.''" "take (n - Suc 399) ?Q"]
    by simp
  then show "take 400 (take n long_words) = ''word'' @ concat (replicate 79 '' word'') @ ''.''"
    unfolding t by simp
qed

text \<open>
  C8. The code departs from the claim on the text \<open>long_words\<close> with the default
  settings. For every tokenizer that gives the text more than 500 tokens and whose first
  500 tokens decode to a prefix \<open>w\<close> of the text with at least 571 characters, there are
  at least two chunks, and the first one, which is not the final one, is cut after the
  period to 400 characters, although the period, at index 399, lies before 70 percent of
  the window's length. The cut is made because the character index 399 is compared with
  \<open>chunk_size * 0.7 = 350\<close>, which counts tokens.
\<close>

theorem trim_compares_characters_with_tokens:
  assumes more: "500 < length (encode tk long_words)"
    and window: "decode tk (py_slice (encode tk long_words) 0 500) = w"
    and prefix: "take (length w) long_words = w"
    and long: "571 \<le> length w"
  shows "\<exists>chunks. chunk_text settings tk long_words = Inr chunks \<and> 2 \<le> length chunks \<and>
           dict_get (chunks ! 0) ''text'' JNull =
             JStr (''word'' @ concat (replicate 79 '' word'') @ ''.'') \<and>
           length (''word'' @ concat (replicate 79 '' word'') @ ''.'') = 400 \<and>
           rfind w (CHR ''.'') = 399 \<and>
           real_of_int (rfind w (CHR ''.'')) < 7 / 10 * real (length w)"
proof -
  let ?tokens = "encode tk long_words"
  let ?chunks = "foldl (chunk_at settings tk ?tokens) [] (range_from 0 (int (length ?tokens)) 450)"
  have run: "chunk_text settings tk long_words = Inr ?chunks"
    by (rule chunk_text_default)
  have r: "range_from 0 (int (length ?tokens)) 450 =
             0 # 450 # range_from 900 (int (length ?tokens)) 450"
  proof -
    have a: "(0::int) < int (length ?tokens)" "(450::int) < int (length ?tokens)"
      using more by linarith+
    have "range_from 0 (int (length ?tokens)) 450 =
            0 # range_from (0 + 450) (int (length ?tokens)) 450"
      by (rule range_from_step) (use a in simp_all)
    also have "range_from (0 + 450) (int (length ?tokens)) 450 =
            450 # range_from (450 + 450) (int (length ?tokens)) 450"
      using range_from_step [of 450 450 "int (length ?tokens)"] a by simp
    finally show ?thesis by simp
  qed
  have len: "2 \<le> length ?chunks"
    by (simp add: length_foldl_chunk_at r)
  then have k0: "0 < length ?chunks" by linarith
  have s: "chunk_size settings = 500" "chunk_overlap settings = 50"
    by (simp_all add: settings_def)
  have n: "400 \<le> length w" using long by simp
  have p: "rfind w (CHR ''.'') = 399"
    using rfind_long_words_prefix(1) [OF n] prefix by simp
  have c: "take 400 w = ''word'' @ concat (replicate 79 '' word'') @ ''.''"
    using rfind_long_words_prefix(2) [OF n] prefix by simp
  have t0: "dict_get (?chunks ! 0) ''text'' JNull =
              JStr (''word'' @ concat (replicate 79 '' word'') @ ''.'')"
    using chunk_text_trimming [OF run k0] more
    by (simp add: Let_def s window p c times_0_7_default [simplified s])
  have l: "length (''word'' @ concat (replicate 79 '' word'') @ ''.'') = 400"
    by (simp add: length_concat sum_list_replicate)
  have f: "real_of_int (rfind w (CHR ''.'')) < 7 / 10 * real (length w)"
    using long by (simp add: p)
  from run len t0 l p f show ?thesis by blast
qed

lemma length_long_words: "length long_words = 5400"
  by (simp add: long_words_def length_concat sum_list_replicate)

lemma py_slice_from_start: "py_slice xs 0 (int k) = take k xs"
  by (simp add: py_slice_def py_index_def min_def)

lemma block_tokenizer_window:
  "decode block_tokenizer (py_slice (encode block_tokenizer s) 0 (int k)) = take (k * 5) s"
proof -
  have "concat (map code_string (take k (map string_code (blocks 5 s)))) =
        concat (take k (blocks 5 s))"
    by (simp add: take_map comp_def code_string_code)
  then show ?thesis
    by (simp add: block_tokenizer_def py_slice_from_start concat_take_blocks)
qed

theorem trim_compares_characters_with_tokens_witness:
  "\<exists>chunks. chunk_text settings block_tokenizer long_words = Inr chunks \<and> 2 \<le> length chunks \<and>
     dict_get (chunks ! 0) ''text'' JNull =
       JStr (''word'' @ concat (replicate 79 '' word'') @ ''.'') \<and>
     length (decode block_tokenizer (py_slice (encode block_tokenizer long_words) 0 500)) = 2500"
proof -
  have more: "500 < length (encode block_tokenizer long_words)"
    using length_blocks_ge [of 5 long_words]
    by (simp add: block_tokenizer_def length_long_words)
  have window: "decode block_tokenizer (py_slice (encode block_tokenizer long_words) 0 500) =
      take 2500 long_words"
    using block_tokenizer_window [of long_words 500] by simp
  have lw: "length (take 2500 long_words) = 2500"
    by (simp add: length_long_words)
  have prefix: "take (length (take 2500 long_words)) long_words = take 2500 long_words"
    by (simp only: lw)
  have long: "571 \<le> length (take 2500 long_words)"
    using lw by simp
  from trim_compares_characters_with_tokens [OF more window prefix long] window lw
  show ?thesis by auto
qed

end
